theory Spec2Isabelle
  imports Main
begin

section \<open>JavaScript values\<close>

text \<open>
  The filter compiler receives its criteria as decoded JSON. A number is modelled as far
  as the compiler can observe it: an integer-valued finite number (a safe integer, whose
  string form is its decimal numeral) or one of the three non-finite values. Fractions
  are outside this model. An object is the list of its own properties in insertion
  order; a property is read from the first entry with that key.
\<close>

datatype jsnum = Finite int | NaN | PosInfinity | NegInfinity

datatype jsval =
    JUndefined
  | JNull
  | JBool bool
  | JNum jsnum
  | JStr string
  | JArr "jsval list"
  | JObj "(string \<times> jsval) list"

datatype error = TypeError | ValidationError string | IndexNotRegistered string

text \<open>
  \<open>TypeError\<close> is what the runtime raises when a property of \<open>undefined\<close> is read,
  when a value that is not a function is called, or when an object cannot be converted
  to a primitive. \<open>ValidationError\<close> and \<open>IndexNotRegistered\<close> are the error kinds of
  the listing service; no function of the compiler sources below raises them.
\<close>

subsection \<open>Strings of numbers\<close>

definition digit_char :: "nat \<Rightarrow> char" where
  "digit_char d = char_of (48 + d)"

fun string_of_nat :: "nat \<Rightarrow> string" where
  "string_of_nat n =
     (if n < 10 then [digit_char n] else string_of_nat (n div 10) @ [digit_char (n mod 10)])"

declare string_of_nat.simps [simp del]

fun string_of_jsnum :: "jsnum \<Rightarrow> string" where
  "string_of_jsnum (Finite i) =
     (if i < 0 then ''-'' @ string_of_nat (nat (- i)) else string_of_nat (nat i))"
| "string_of_jsnum NaN = ''NaN''"
| "string_of_jsnum PosInfinity = ''Infinity''"
| "string_of_jsnum NegInfinity = ''-Infinity''"

subsection \<open>\<open>Array.prototype.join\<close> and \<open>ToString\<close>\<close>

fun join :: "string \<Rightarrow> string list \<Rightarrow> string" where
  "join sep [] = []"
| "join sep [x] = x"
| "join sep (x # y # ys) = x @ sep @ join sep (y # ys)"

definition has_own :: "(string \<times> jsval) list \<Rightarrow> string \<Rightarrow> bool" where
  "has_own props k = (map_of props k \<noteq> None)"

text \<open>
  \<open>to_string\<close> is the language's \<open>ToString\<close>. A decoded JSON object has the default
  prototype, so its string form is \<open>[object Object]\<close>, unless it has an own property
  \<open>toString\<close>: that property shadows the inherited method, is not callable, and the
  conversion raises. An array is joined with commas, \<open>undefined\<close> and \<open>null\<close> elements
  giving the empty string; \<open>elem_strings\<close> converts the elements from left to right
  and stops at the first that raises.
\<close>

fun to_string :: "jsval \<Rightarrow> error + string"
  and elem_strings :: "jsval list \<Rightarrow> error + string list" where
  "to_string JUndefined = Inr ''undefined''"
| "to_string JNull = Inr ''null''"
| "to_string (JBool b) = Inr (if b then ''true'' else ''false'')"
| "to_string (JNum n) = Inr (string_of_jsnum n)"
| "to_string (JStr s) = Inr s"
| "to_string (JArr xs) =
     (case elem_strings xs of Inl e \<Rightarrow> Inl e | Inr ss \<Rightarrow> Inr (join '','' ss))"
| "to_string (JObj props) =
     (if has_own props ''toString'' then Inl TypeError else Inr ''[object Object]'')"
| "elem_strings [] = Inr []"
| "elem_strings (x # xs) =
     (case (case x of JUndefined \<Rightarrow> Inr [] | JNull \<Rightarrow> Inr [] | _ \<Rightarrow> to_string x) of
        Inl e \<Rightarrow> Inl e
      | Inr s \<Rightarrow> (case elem_strings xs of Inl e \<Rightarrow> Inl e | Inr ss \<Rightarrow> Inr (s # ss)))"

section \<open>Audience list for metadata (\<open>src/utils/jwt.js\<close>)\<close>

definition getAudience :: "string \<Rightarrow> string \<Rightarrow> string list" where
  "getAudience defaultAudience audience =
     (if audience \<noteq> defaultAudience then [audience, defaultAudience] else [audience])"

text \<open>
  \<open>login\<close> computes the list from \<open>_audience || defaultAudience\<close>: an omitted (\<open>None\<close>)
  or empty audience argument is falsy and gives way to the default. \<open>refresh\<close> passes
  its audience argument to \<open>getAudience\<close> as it is.
\<close>

definition login_metadataAudience :: "string \<Rightarrow> string option \<Rightarrow> string list" where
  "login_metadataAudience defaultAudience audience_arg =
     (let audience = (case audience_arg of
                        None \<Rightarrow> defaultAudience
                      | Some a \<Rightarrow> if a = [] then defaultAudience else a)
      in getAudience defaultAudience audience)"

section \<open>Field resolution (\<open>normalize-filter-prop.js\<close>)\<close>

text \<open>
  \<open>get_prop\<close> reads a property of a decoded object whose name the default prototype
  does not define (\<open>fields\<close>, \<open>eq\<close>, \<open>ne\<close>, \<open>match\<close>, \<open>gte\<close>, \<open>lte\<close>): the own
  property, or \<open>undefined\<close>.
\<close>

definition get_prop :: "(string \<times> jsval) list \<Rightarrow> string \<Rightarrow> jsval" where
  "get_prop props k = (case map_of props k of None \<Rightarrow> JUndefined | Some v \<Rightarrow> v)"

fun read_fields :: "jsval \<Rightarrow> error + jsval" where
  \<comment> \<open>\<open>x.fields\<close>: raises on \<open>undefined\<close> and \<open>null\<close>; a primitive or an array has no such member.\<close>
  "read_fields JUndefined = Inl TypeError"
| "read_fields JNull = Inl TypeError"
| "read_fields (JObj props) = Inr (get_prop props ''fields'')"
| "read_fields _ = Inr JUndefined"

fun call_join :: "jsval \<Rightarrow> string \<Rightarrow> error + string" where
  \<comment> \<open>\<open>x.join(sep)\<close>: only an array has a callable \<open>join\<close>.\<close>
  "call_join (JArr xs) sep =
     (case elem_strings xs of Inl e \<Rightarrow> Inl e | Inr ss \<Rightarrow> Inr (join sep ss))"
| "call_join _ sep = Inl TypeError"

text \<open>
  The constant \<open>USERS_ID_FIELD\<close> comes from a module that is not part of the sources
  at hand; it is a parameter here.
\<close>

definition normalizeFilterProp :: "string \<Rightarrow> string \<Rightarrow> jsval \<Rightarrow> error + string" where
  "normalizeFilterProp USERS_ID_FIELD propName actionTypeOrValue =
     (if propName = ''#'' then Inr USERS_ID_FIELD
      else if propName = ''#multi'' then
        (case read_fields actionTypeOrValue of
           Inl e \<Rightarrow> Inl e
         | Inr fields \<Rightarrow> call_join fields ''|'')
      else Inr propName)"

section \<open>Expression primitives\<close>

text \<open>
  Modelled from the spec: the module \<open>./expressions\<close> (\<open>expression\<close>, \<open>numericRange\<close>,
  \<open>paramRef\<close>, \<open>namedField\<close>, \<open>tag\<close>, \<open>negative\<close>, \<open>matchAny\<close>) is not part of the
  sources at hand. The index engine's textual protocol fixes their output: a clause is
  \<open>@<field>:<value-expr>\<close>, tag equality is \<open>{$<param>}\<close>, "matches any token" is
  \<open>($<param>*)\<close>, a numeric range is \<open>[<lo> <hi>]\<close> with a sentinel for an absent side,
  and negation prefixes a clause with a marker. The marker and the sentinels are not
  spelled out there; the engine's \<open>-\<close>, \<open>-inf\<close> and \<open>+inf\<close> are used. The primitives
  are pure syntax constructors and validate nothing.
\<close>

definition namedField :: "string \<Rightarrow> string" where
  \<comment> \<open>Modelled from the spec: the field reference \<open>@<field>\<close>.\<close>
  "namedField propName = ''@'' @ propName"

definition expression :: "string \<Rightarrow> string option \<Rightarrow> string" where
  \<comment> \<open>Modelled from the spec: clause composition \<open><name>:<value>\<close>. \<open>None\<close> is an omitted
      second argument, which is \<open>undefined\<close> and is rendered as such.\<close>
  "expression name v = name @ '':'' @ (case v of None \<Rightarrow> ''undefined'' | Some s \<Rightarrow> s)"

definition paramRef :: "string \<Rightarrow> string" where
  \<comment> \<open>Modelled from the spec: the parameter placeholder \<open>$<param>\<close>.\<close>
  "paramRef name = ''$'' @ name"

definition tag :: "string \<Rightarrow> string" where
  \<comment> \<open>Modelled from the spec: the tag-literal wrapper \<open>{...}\<close>.\<close>
  "tag item = ''{'' @ item @ ''}''"

definition matchAny :: "string \<Rightarrow> string" where
  \<comment> \<open>Modelled from the spec: the "matches any token, prefix-capable" wrapper \<open>(...*)\<close>.\<close>
  "matchAny item = ''('' @ item @ ''*)''"

definition negative :: "string \<Rightarrow> string" where
  \<comment> \<open>Modelled from the spec: the negation wrapper, a marker before the clause.\<close>
  "negative expr = ''-'' @ expr"

definition bound_text :: "string \<Rightarrow> jsval \<Rightarrow> error + string" where
  \<comment> \<open>Modelled from the spec: an absent bound is the sentinel, any other its string form.\<close>
  "bound_text sentinel v = (case v of JUndefined \<Rightarrow> Inr sentinel | _ \<Rightarrow> to_string v)"

definition numericRange :: "jsval \<Rightarrow> jsval \<Rightarrow> error + string" where
  \<comment> \<open>Modelled from the spec: the range \<open>[<lo> <hi>]\<close>.\<close>
  "numericRange min_v max_v =
     (case bound_text ''-inf'' min_v of
        Inl e \<Rightarrow> Inl e
      | Inr lo \<Rightarrow>
          (case bound_text ''+inf'' max_v of
             Inl e \<Rightarrow> Inl e
           | Inr hi \<Rightarrow> Inr (''['' @ lo @ '' '' @ hi @ '']'')))"

section \<open>Criterion compiler (\<open>build-search-query.js\<close>)\<close>

definition EMPTY_VALUE :: string where
  "EMPTY_VALUE = [CHR 0x22, CHR 0x22]"

definition buildParamName :: "string list \<Rightarrow> string" where
  "buildParamName args = join ''_'' args"

definition normalizePropName :: "string \<Rightarrow> string" where
  "normalizePropName prop = map (\<lambda>c. if c = CHR ''|'' then CHR ''_'' else c) prop"

subsection \<open>The table \<open>searchQueryBuilder\<close>\<close>

type_synonym props = "(string \<times> jsval) list"

definition searchQueryBuilder_gte :: "string \<Rightarrow> string \<Rightarrow> props \<Rightarrow> error + string" where
  "searchQueryBuilder_gte prop field expr =
     (case numericRange (get_prop expr ''gte'') (get_prop expr ''lte'') of
        Inl e \<Rightarrow> Inl e
      | Inr r \<Rightarrow> Inr (expression field (Some r)))"

definition searchQueryBuilder_lte :: "string \<Rightarrow> string \<Rightarrow> props \<Rightarrow> error + string" where
  "searchQueryBuilder_lte prop field expr =
     (case numericRange (get_prop expr ''gte'') (get_prop expr ''lte'') of
        Inl e \<Rightarrow> Inl e
      | Inr r \<Rightarrow> Inr (expression field (Some r)))"

definition searchQueryBuilder_exists :: "string \<Rightarrow> string \<Rightarrow> props \<Rightarrow> error + string" where
  "searchQueryBuilder_exists prop field expr =
     Inr (negative (expression field (Some EMPTY_VALUE)))"

definition searchQueryBuilder_isempty :: "string \<Rightarrow> string \<Rightarrow> props \<Rightarrow> error + string" where
  "searchQueryBuilder_isempty prop field expr = Inr (expression field (Some EMPTY_VALUE))"

definition searchQueryBuilder_eq :: "string \<Rightarrow> string \<Rightarrow> props \<Rightarrow> error + string" where
  "searchQueryBuilder_eq prop field expr =
     (let name = buildParamName [''f'', prop, ''eq'']
      in Inr (expression field (Some (tag (paramRef name)))))"

text \<open>
  In \<open>ne\<close> the source closes the call of \<open>expression\<close> after its first argument:
  \<open>negative(expression(field), tag(paramRef(name)))\<close>. The placeholder is evaluated
  and handed to \<open>negative\<close> as a second argument, which a one-parameter function drops.
\<close>

definition searchQueryBuilder_ne :: "string \<Rightarrow> string \<Rightarrow> props \<Rightarrow> error + string" where
  "searchQueryBuilder_ne prop field expr =
     (let name = buildParamName [''f'', prop, ''ne''];
          dropped = tag (paramRef name)
      in Inr (negative (expression field None)))"

definition searchQueryBuilder_match :: "string \<Rightarrow> string \<Rightarrow> props \<Rightarrow> error + string" where
  "searchQueryBuilder_match prop field expr =
     (let propName = normalizePropName prop;
          name = buildParamName [''f'', propName, ''m'']
      in Inr (expression field (Some (matchAny (paramRef name)))))"

definition searchQueryBuilder ::
  "string \<Rightarrow> (string \<Rightarrow> string \<Rightarrow> props \<Rightarrow> error + string) option" where
  "searchQueryBuilder key =
     map_of [(''gte'', searchQueryBuilder_gte),
             (''lte'', searchQueryBuilder_lte),
             (''exists'', searchQueryBuilder_exists),
             (''isempty'', searchQueryBuilder_isempty),
             (''eq'', searchQueryBuilder_eq),
             (''ne'', searchQueryBuilder_ne),
             (''match'', searchQueryBuilder_match)] key"

subsection \<open>The table \<open>searchParamBuilder\<close>\<close>

definition searchParamBuilder_eq :: "string \<Rightarrow> props \<Rightarrow> string \<times> jsval" where
  "searchParamBuilder_eq prop expr =
     (let name = buildParamName [''f'', prop, ''eq''] in (name, get_prop expr ''eq''))"

definition searchParamBuilder_ne :: "string \<Rightarrow> props \<Rightarrow> string \<times> jsval" where
  "searchParamBuilder_ne prop expr =
     (let name = buildParamName [''f'', prop, ''ne''] in (name, get_prop expr ''ne''))"

definition searchParamBuilder_match :: "string \<Rightarrow> props \<Rightarrow> string \<times> jsval" where
  "searchParamBuilder_match prop expr =
     (let propName = normalizePropName prop;
          name = buildParamName [''f'', propName, ''m'']
      in (name, get_prop expr ''match''))"

definition searchParamBuilder :: "string \<Rightarrow> (string \<Rightarrow> props \<Rightarrow> string \<times> jsval) option" where
  "searchParamBuilder key =
     map_of [(''eq'', searchParamBuilder_eq),
             (''ne'', searchParamBuilder_ne),
             (''match'', searchParamBuilder_match)] key"

subsection \<open>\<open>buildSearchQuery\<close>\<close>

text \<open>
  A criterion is a plain string or a decoded JSON object. The function returns the pair
  of the clause text and the parameter array, which is empty or holds one name and its
  value; the array is modelled as a list of at most one pair.

  For a criterion that is not a string the source indexes both tables with the criterion
  itself, \<open>searchQueryBuilder[valueOrExpr]\<close>. The property key is the string form of
  the object. For a decoded object that is \<open>[object Object]\<close>, which neither table
  nor the default prototype defines, so the builder is \<open>undefined\<close> and calling it
  raises; an object with an own property \<open>toString\<close> raises in the conversion
  already. The tables below hold the own properties only, and no other key is looked up.
\<close>

datatype criterion = Value string | Expr props

fun buildSearchQuery :: "string \<Rightarrow> criterion \<Rightarrow> error + (string \<times> (string \<times> jsval) list)" where
  "buildSearchQuery propName (Value v) =
     (let field = namedField propName;
          pName = buildParamName [''f'', field];
          query = expression field (Some (tag (paramRef pName)))
      in Inr (query, [(pName, JStr v)]))"
| "buildSearchQuery propName (Expr valueOrExpr) =
     (let field = namedField propName
      in case to_string (JObj valueOrExpr) of
           Inl e \<Rightarrow> Inl e
         | Inr key \<Rightarrow>
             (case searchQueryBuilder key of
                None \<Rightarrow> Inl TypeError
              | Some buildQuery \<Rightarrow>
                  (case buildQuery propName field valueOrExpr of
                     Inl e \<Rightarrow> Inl e
                   | Inr query \<Rightarrow>
                       (case searchParamBuilder key of
                          None \<Rightarrow> Inr (query, [])
                        | Some buildParams \<Rightarrow>
                            Inr (query, [buildParams propName valueOrExpr])))))"

subsection \<open>Operator keys of a criterion object\<close>

text \<open>
  The permitted shapes of a criterion object, in the words of the specification: exactly
  one recognized operator key, or the \<open>gte\<close>/\<open>lte\<close> pair. The compiler has no such
  check; the predicate serves to state what happens to the objects outside it.
\<close>

definition recognized_operator_keys :: "string list" where
  "recognized_operator_keys =
     [''eq'', ''ne'', ''match'', ''exists'', ''isempty'', ''gte'', ''lte'']"

definition spec_permitted_keys :: "string list \<Rightarrow> bool" where
  "spec_permitted_keys ks =
     (ks \<noteq> [] \<and> list_all (\<lambda>k. k \<in> set recognized_operator_keys) ks
      \<and> (length (remdups ks) = 1 \<or> set ks = {''gte'', ''lte''}))"

section \<open>Index registry and listing\<close>

text \<open>
  Modelled from the spec: the listing action and the index registry are not part of the
  sources at hand; only the test of the listing action is. The registry is a read-only
  table from audiences to descriptors. \<open>list_users\<close> follows the six steps of the
  listing service: validate the pagination, resolve the index, assemble the query, execute
  it (an engine failure is downgraded to no matches), hydrate every match, return. The
  assembler, the engine and the metadata store are collaborators and are parameters. The
  text of the not-registered message before the audience is the one the test expects.
\<close>

record IndexDescriptor =
  index_audience :: string
  indexedFields :: "string list"

record ListRequest =
  req_audience :: string
  req_criteria :: string
  req_offset :: int
  req_limit :: int
  req_filter :: "(string \<times> criterion) list option"

definition resolve :: "(string \<Rightarrow> IndexDescriptor option) \<Rightarrow> string \<Rightarrow> error + IndexDescriptor" where
  \<comment> \<open>Modelled from the spec: \<open>IndexRegistry.resolve\<close>, which fails closed when the audience is absent.\<close>
  "resolve registry a =
     (case registry a of None \<Rightarrow> Inl (IndexNotRegistered a) | Some d \<Rightarrow> Inr d)"

definition not_registered_message :: "string \<Rightarrow> string" where
  \<comment> \<open>Modelled from the spec: the message of \<open>IndexNotRegistered\<close>, which names the audience.\<close>
  "not_registered_message a = ''Search index does not registered for '' @ a"

definition list_users ::
  "int \<Rightarrow> (string \<Rightarrow> IndexDescriptor option)
     \<Rightarrow> ((string \<times> criterion) list \<Rightarrow> error + 'q)
     \<Rightarrow> (IndexDescriptor \<Rightarrow> 'q \<Rightarrow> int \<Rightarrow> int \<Rightarrow> string \<Rightarrow> 'x + string list)
     \<Rightarrow> (string \<Rightarrow> string list \<Rightarrow> 'm)
     \<Rightarrow> ListRequest \<Rightarrow> error + (string \<times> 'm) list" where
  \<comment> \<open>Modelled from the spec: \<open>ListService.list\<close>.\<close>
  "list_users MAX_LIMIT registry assemble execute fetch request =
     (if \<not> (0 \<le> req_offset request \<and> 0 < req_limit request \<and> req_limit request \<le> MAX_LIMIT)
      then Inl (ValidationError ''invalid offset or limit'')
      else
        case resolve registry (req_audience request) of
          Inl e \<Rightarrow> Inl e
        | Inr index \<Rightarrow>
            (case assemble (case req_filter request of None \<Rightarrow> [] | Some f \<Rightarrow> f) of
               Inl e \<Rightarrow> Inl e
             | Inr compiled \<Rightarrow>
                 (let matched =
                        (case execute index compiled (req_offset request) (req_limit request)
                                (req_criteria request) of
                           Inl failure \<Rightarrow> []
                         | Inr ids \<Rightarrow> ids)
                  in Inr (map (\<lambda>i. (i, fetch i [req_audience request])) matched))))"

section \<open>Properties of the audience list\<close>

text \<open>
  C10. For every default audience \<open>d\<close> and requested audience \<open>a\<close>, the audience list used
  for metadata hydration is \<open>[a]\<close> when \<open>a\<close> equals \<open>d\<close> and \<open>[a, d]\<close> otherwise; it always
  contains the requested audience, always contains the default audience, and never
  contains duplicates. \<open>login\<close> hands a non-empty requested audience to \<open>getAudience\<close>
  unchanged.
\<close>

theorem getAudience_contents:
  "getAudience d a = (if a = d then [a] else [a, d])
   \<and> a \<in> set (getAudience d a)
   \<and> d \<in> set (getAudience d a)
   \<and> distinct (getAudience d a)
   \<and> login_metadataAudience d (Some (c # cs)) = getAudience d (c # cs)"
  by (simp add: getAudience_def login_metadataAudience_def)

theorem getAudience_contents_witness:
  "getAudience ''*.localhost'' ''api'' = [''api'', ''*.localhost'']
   \<and> getAudience ''*.localhost'' ''*.localhost'' = [''*.localhost'']
   \<and> login_metadataAudience ''*.localhost'' (Some ''api'') = [''api'', ''*.localhost'']"
  using getAudience_contents [of "''*.localhost''" "''api''" "CHR ''a''" "''pi''"]
    getAudience_contents [of "''*.localhost''" "''*.localhost''" "CHR ''a''" "''pi''"]
  by simp

section \<open>Properties of the field resolver\<close>

lemma elem_strings_JStr: "elem_strings (map JStr names) = Inr names"
  by (induction names) simp_all

text \<open>
  C6. For every property name and extra argument, the field resolver maps the reserved
  name \<open>#\<close> to the identity field constant, maps the reserved name \<open>#multi\<close> with a
  supplied sequence of field names to the field names joined by the union separator
  \<open>|\<close>, and returns every other property name unchanged.
\<close>

theorem normalizeFilterProp_resolves:
  "normalizeFilterProp idf ''#'' extra = Inr idf
   \<and> (get_prop props ''fields'' = JArr (map JStr names) \<longrightarrow>
        normalizeFilterProp idf ''#multi'' (JObj props) = Inr (join ''|'' names))
   \<and> (p \<noteq> ''#'' \<and> p \<noteq> ''#multi'' \<longrightarrow> normalizeFilterProp idf p extra = Inr p)"
  by (simp add: normalizeFilterProp_def elem_strings_JStr)

theorem normalizeFilterProp_resolves_witness:
  "normalizeFilterProp ''id'' ''#'' JUndefined = Inr ''id''
   \<and> normalizeFilterProp ''id'' ''#multi''
        (JObj [(''fields'', JArr [JStr ''firstName'', JStr ''lastName'']), (''match'', JStr ''Joe'')])
      = Inr ''firstName|lastName''
   \<and> normalizeFilterProp ''id'' ''username'' (JStr ''yahoo'') = Inr ''username''"
  using normalizeFilterProp_resolves [of "''id''" JUndefined
      "[(''fields'', JArr [JStr ''firstName'', JStr ''lastName'']), (''match'', JStr ''Joe'')]"
      "[''firstName'', ''lastName'']" "''username''"]
    normalizeFilterProp_resolves [of "''id''" "JStr ''yahoo''" "[]" "[]" "''username''"]
  by (simp add: get_prop_def)

lemma call_join_not_array: "(\<forall>xs. v \<noteq> JArr xs) \<Longrightarrow> call_join v sep = Inl TypeError"
  by (cases v) simp_all

text \<open>
  C7, as the code has it. For every extra argument that lacks a fields sequence,
  resolving the reserved property name \<open>#multi\<close> fails with the runtime's \<open>TypeError\<close>:
  reading \<open>fields\<close> of \<open>undefined\<close> or \<open>null\<close> raises, and so does calling \<open>join\<close> on
  anything that is not an array. The resolver raises no \<open>ValidationError\<close>.
\<close>

theorem multi_without_fields_TypeError:
  "(\<forall>xs. read_fields extra \<noteq> Inr (JArr xs)) \<Longrightarrow>
     normalizeFilterProp idf ''#multi'' extra = Inl TypeError"
proof -
  assume h: "\<forall>xs. read_fields extra \<noteq> Inr (JArr xs)"
  show ?thesis
  proof (cases "read_fields extra")
    case (Inl e)
    then have "e = TypeError" by (cases extra) simp_all
    with Inl show ?thesis by (simp add: normalizeFilterProp_def)
  next
    case (Inr v)
    with h have "\<forall>xs. v \<noteq> JArr xs" by simp
    then have "call_join v ''|'' = Inl TypeError" by (rule call_join_not_array)
    with Inr show ?thesis by (simp add: normalizeFilterProp_def)
  qed
qed

theorem multi_without_fields_TypeError_witness:
  "(\<forall>xs. read_fields (JObj [(''match'', JStr ''Joe'')]) \<noteq> Inr (JArr xs))
   \<and> normalizeFilterProp ''id'' ''#multi'' (JObj [(''match'', JStr ''Joe'')]) = Inl TypeError"
proof -
  have h: "\<forall>xs. read_fields (JObj [(''match'', JStr ''Joe'')]) \<noteq> Inr (JArr xs)"
    by (simp add: get_prop_def)
  from multi_without_fields_TypeError [OF h, of "''id''"] h show ?thesis by simp
qed

text \<open>
  The claim C7 as stated fails: a \<open>#multi\<close> criterion without \<open>fields\<close> does not end in
  \<open>ValidationError("malformed multi-field filter")\<close>.
\<close>

theorem multi_without_fields_counterexample:
  "normalizeFilterProp ''id'' ''#multi'' (JObj [(''match'', JStr ''Joe'')]) = Inl TypeError
   \<and> normalizeFilterProp ''id'' ''#multi'' (JObj [(''match'', JStr ''Joe'')])
       \<noteq> Inl (ValidationError ''malformed multi-field filter'')"
  by (simp add: normalizeFilterProp_def get_prop_def)

section \<open>Properties of the criterion compiler\<close>

subsection \<open>Plain string criteria\<close>


text \<open>
  C3. For every property name \<open>p\<close> and any two plain string filter values, the clause
  text produced by \<open>buildSearchQuery\<close> is the same: there is one clause text and one
  parameter name, fixed by \<open>p\<close> alone, and for every value \<open>v\<close> the result is that
  clause with the single binding of that name to \<open>v\<close>. The value enters the result
  only through the binding.
\<close>

theorem plain_value_only_in_params:
  "\<exists>query pName. pName = buildParamName [''f'', namedField p]
     \<and> (\<forall>v. buildSearchQuery p (Value v) = Inr (query, [(pName, JStr v)]))"
  by (simp add: Let_def)

subsection \<open>Object criteria\<close>

lemma object_key_not_a_builder: "searchQueryBuilder ''[object Object]'' = None"
  by (simp add: searchQueryBuilder_def)

lemma object_criterion_TypeError: "buildSearchQuery p (Expr e) = Inl TypeError"
  by (simp add: object_key_not_a_builder)

declare buildSearchQuery.simps(2) [simp del]

text \<open>
  C1, as the code has it. For any criterion object whose keys are not a permitted
  operator key or combination, compilation fails with the runtime's \<open>TypeError\<close>, raised
  by the call of a builder that is \<open>undefined\<close>; the compiler raises no
  \<open>ValidationError\<close>.
\<close>

theorem unsupported_operator_TypeError:
  "\<not> spec_permitted_keys (map fst e) \<Longrightarrow> buildSearchQuery p (Expr e) = Inl TypeError"
  by (rule object_criterion_TypeError)

theorem unsupported_operator_TypeError_witness:
  "\<not> spec_permitted_keys (map fst [(''between'', JStr ''a'')])
   \<and> buildSearchQuery ''username'' (Expr [(''between'', JStr ''a'')]) = Inl TypeError"
proof -
  have h: "\<not> spec_permitted_keys (map fst [(''between'', JStr ''a'')])"
    by (simp add: spec_permitted_keys_def recognized_operator_keys_def)
  from unsupported_operator_TypeError [OF h, of "''username''"] h show ?thesis by simp
qed

text \<open>
  The claim C1 as stated fails on both halves: the object \<open>{eq: "kim@yahoo.org"}\<close> has
  exactly one recognized operator key and is not compiled, and the object
  \<open>{between: "a"}\<close> has an unrecognized key and does not end in
  \<open>ValidationError("unsupported filter operator")\<close>.
\<close>

theorem operator_dispatch_counterexample:
  "spec_permitted_keys (map fst [(''eq'', JStr ''kim@yahoo.org'')])
   \<and> buildSearchQuery ''username'' (Expr [(''eq'', JStr ''kim@yahoo.org'')]) = Inl TypeError
   \<and> \<not> spec_permitted_keys (map fst [(''between'', JStr ''a'')])
   \<and> buildSearchQuery ''username'' (Expr [(''between'', JStr ''a'')])
       \<noteq> Inl (ValidationError ''unsupported filter operator'')"
  by (simp add: spec_permitted_keys_def recognized_operator_keys_def object_criterion_TypeError)

text \<open>
  C2 at the criterion \<open>username: {ne: "gmail"}\<close>. The compilation raises; the \<open>ne\<close>
  clause builder, called on its own, returns the negated clause of the field paired with
  \<open>undefined\<close>, not with the tag-wrapped placeholder; the \<open>ne\<close> parameter builder returns
  the binding of \<open>f_username_ne\<close> to the comparison value.
\<close>

theorem ne_criterion_evaluation:
  "buildSearchQuery ''username'' (Expr [(''ne'', JStr ''gmail'')]) = Inl TypeError
   \<and> searchQueryBuilder_ne ''username'' (namedField ''username'') [(''ne'', JStr ''gmail'')]
       = Inr ''-@username:undefined''
   \<and> searchQueryBuilder_ne ''username'' (namedField ''username'') [(''ne'', JStr ''gmail'')]
       \<noteq> Inr (negative (expression (namedField ''username'')
                 (Some (tag (paramRef (buildParamName [''f'', ''username'', ''ne'']))))))
   \<and> searchParamBuilder_ne ''username'' [(''ne'', JStr ''gmail'')]
       = (''f_username_ne'', JStr ''gmail'')"
  by (simp add: object_criterion_TypeError searchQueryBuilder_ne_def searchParamBuilder_ne_def
      namedField_def negative_def expression_def tag_def paramRef_def buildParamName_def
      get_prop_def)

text \<open>
  C8 at the criteria \<open>firstName: {exists: true}\<close> and \<open>firstName: {isempty: true}\<close>:
  neither is compiled, both raise.
\<close>

theorem exists_criterion_evaluation:
  "buildSearchQuery ''firstName'' (Expr [(''exists'', JBool True)]) = Inl TypeError
   \<and> buildSearchQuery ''firstName'' (Expr [(''isempty'', JBool True)]) = Inl TypeError"
  by (simp add: object_criterion_TypeError)

text \<open>
  The two clause builders themselves stand in the relation the claim describes, and
  neither key has a parameter builder.
\<close>

lemma exists_builder_negates_isempty:
  "searchQueryBuilder_exists p field e = map_sum id negative (searchQueryBuilder_isempty p field e)
   \<and> searchQueryBuilder_isempty p field e = Inr (expression field (Some EMPTY_VALUE))
   \<and> searchParamBuilder ''exists'' = None \<and> searchParamBuilder ''isempty'' = None"
  by (simp add: searchQueryBuilder_exists_def searchQueryBuilder_isempty_def
      searchParamBuilder_def)

subsection \<open>Range bounds\<close>






subsection \<open>Parameter names\<close>



text \<open>
  The parameter builders of the table are not injective on their own: \<open>match\<close> gives
  the property names \<open>a|b\<close> and \<open>a_b\<close> the same parameter name. No compiled query
  shows it, since a criterion object never reaches the table.
\<close>

lemma match_param_names_collide:
  "fst (searchParamBuilder_match ''a|b'' e1) = fst (searchParamBuilder_match ''a_b'' e2)"
  by (simp add: searchParamBuilder_match_def normalizePropName_def)

text \<open>
  For property names without the union separator the table's naming is injective: any
  two parameter builders give two different property names different parameter names.
\<close>

lemma normalizePropName_no_separator: "CHR ''|'' \<notin> set p \<Longrightarrow> normalizePropName p = p"
  by (induction p) (auto simp: normalizePropName_def)

lemma param_builder_name_cases:
  "searchParamBuilder k = Some b \<Longrightarrow>
     fst (b p e) = ''f_'' @ p @ ''_eq'' \<or> fst (b p e) = ''f_'' @ p @ ''_ne''
     \<or> fst (b p e) = ''f_'' @ normalizePropName p @ ''_m''"
  by (auto simp: searchParamBuilder_def searchParamBuilder_eq_def searchParamBuilder_ne_def
      searchParamBuilder_match_def buildParamName_def split: if_splits)

lemma suffix_names_differ:
  "p1 \<noteq> p2 \<Longrightarrow> s1 \<in> {''_eq'', ''_ne'', ''_m''} \<Longrightarrow> s2 \<in> {''_eq'', ''_ne'', ''_m''}
     \<Longrightarrow> ''f_'' @ p1 @ s1 \<noteq> ''f_'' @ p2 @ s2"
proof
  assume ne: "p1 \<noteq> p2" and m1: "s1 \<in> {''_eq'', ''_ne'', ''_m''}"
    and m2: "s2 \<in> {''_eq'', ''_ne'', ''_m''}" and eq: "''f_'' @ p1 @ s1 = ''f_'' @ p2 @ s2"
  from eq have e: "p1 @ s1 = p2 @ s2" by simp
  then have "last (p1 @ s1) = last (p2 @ s2)" by simp
  with m1 m2 have "s1 = s2" by auto
  with e ne show False by simp
qed

lemma param_builder_names_distinct:
  assumes "searchParamBuilder k1 = Some b1" and "searchParamBuilder k2 = Some b2"
    and "p1 \<noteq> p2" and "CHR ''|'' \<notin> set p1" and "CHR ''|'' \<notin> set p2"
  shows "fst (b1 p1 e1) \<noteq> fst (b2 p2 e2)"
proof -
  from assms(1) assms(4) obtain s1 where s1: "s1 \<in> {''_eq'', ''_ne'', ''_m''}"
    and n1: "fst (b1 p1 e1) = ''f_'' @ p1 @ s1"
    using param_builder_name_cases [of k1 b1 p1 e1]
    by (auto simp: normalizePropName_no_separator)
  from assms(2) assms(5) obtain s2 where s2: "s2 \<in> {''_eq'', ''_ne'', ''_m''}"
    and n2: "fst (b2 p2 e2) = ''f_'' @ p2 @ s2"
    using param_builder_name_cases [of k2 b2 p2 e2]
    by (auto simp: normalizePropName_no_separator)
  from suffix_names_differ [OF assms(3) s1 s2] n1 n2 show ?thesis by simp
qed

section \<open>Properties of the listing\<close>

text \<open>
  C9. For every list request whose audience has no provisioned index, the list operation
  fails: it never returns a result, so the failure is not downgraded to an empty one.
  For a request with valid pagination the failure is the not-registered error of the
  requested audience, and its message contains the literal audience string.
\<close>

theorem list_unregistered_audience_fails:
  "registry (req_audience r) = None \<Longrightarrow>
     (\<exists>e. list_users M registry asm exec fetch r = Inl e)
     \<and> (0 \<le> req_offset r \<and> 0 < req_limit r \<and> req_limit r \<le> M \<longrightarrow>
          list_users M registry asm exec fetch r = Inl (IndexNotRegistered (req_audience r)))
     \<and> (\<exists>pre post. not_registered_message (req_audience r) = pre @ req_audience r @ post)"
proof -
  assume h: "registry (req_audience r) = None"
  have m: "not_registered_message (req_audience r)
             = ''Search index does not registered for '' @ req_audience r @ []"
    by (simp add: not_registered_message_def)
  have "\<exists>pre post. not_registered_message (req_audience r) = pre @ req_audience r @ post"
    using m by blast
  with h show ?thesis
    by (simp add: list_users_def resolve_def)
qed

theorem list_unregistered_audience_fails_witness:
  "Map.empty ''not-existing-audience'' = (None :: IndexDescriptor option)
   \<and> list_users 100 Map.empty (\<lambda>f. Inr ()) (\<lambda>i q off lim c. (Inr [] :: unit + string list))
        (\<lambda>i as. ())
        \<lparr>req_audience = ''not-existing-audience'', req_criteria = ''username'',
         req_offset = 0, req_limit = 10, req_filter = None\<rparr>
      = Inl (IndexNotRegistered ''not-existing-audience'')"
  using list_unregistered_audience_fails [of Map.empty
      "\<lparr>req_audience = ''not-existing-audience'', req_criteria = ''username'',
         req_offset = 0, req_limit = 10, req_filter = None\<rparr>" 100
      "\<lambda>f. Inr ()" "\<lambda>i q off lim c. (Inr [] :: unit + string list)" "\<lambda>i as. ()"]
  by simp

end
